theory Spec2Isabelle
  imports Main "HOL-Library.Word"
begin

section \<open>Data model\<close>

text \<open>
  The rows of the relational store as the views and tasks read and write them.
  A \<open>datetime\<close> is an integer count of microseconds, a \<open>date\<close> an integer day
  ordinal, a decimal amount an integer count of minor units. Foreign keys are the
  primary key of the row they point to.

  views.py holds an earlier and a later generation of the views one after the other.
  The later definitions, which replace the earlier ones of the same name, are the ones
  embedded here.
\<close>

type_synonym timestamp = int
type_synonym date = int

record user =
  u_id :: nat
  u_email :: string
  u_is_staff :: bool

record listing =
  l_id :: nat
  l_host :: nat
  l_title :: string
  l_city :: string
  l_country :: string
  l_max_guests :: int
  l_property_type :: string
  l_base_price :: int
  l_status :: string
  l_amenities :: "string list"

record booking =
  b_id :: nat
  b_listing :: nat
  b_guest :: nat
  b_check_in :: date
  b_check_out :: date
  b_guests :: int
  b_total_price :: int
  b_status :: string
  b_confirmation_number :: "string option"
  b_payment_status :: "string option"
  b_created_at :: timestamp
  b_updated_at :: timestamp
  b_confirmed_at :: "timestamp option"
  b_cancelled_at :: "timestamp option"
  b_paid_at :: "timestamp option"

text \<open>
  The JSON document of the gateway's verify call, as far as \<open>verify_payment\<close> reads it:
  \<open>chapa_response["data"]["status"]\<close>, absent when either key is missing.
\<close>

datatype chapa_json = Chapa_json (data_status: "string option")

datatype gateway_result = Gateway_raised | Gateway_returned chapa_json

record payment =
  p_id :: nat
  p_booking :: "nat option"
  p_amount :: int
  p_email :: string
  p_reference :: string
  p_transaction_id :: string
  p_status :: string
  p_chapa_verification_response :: "chapa_json option"
  p_paid_at :: "timestamp option"

text \<open>
  Values of the dictionaries handed to the task queue and returned as JSON. A dictionary
  is the list of its items in insertion order. \<open>PStrftime t\<close> is the text
  \<open>t.strftime('%Y-%m-%d %H:%M:%S')\<close>.
\<close>

datatype pyval =
    PNone
  | PInt int
  | PStr string
  | PDate date
  | PDecimal int
  | PStrftime timestamp
  | PDatetime timestamp
  | PDict "(string \<times> pyval) list"

type_synonym pydict = "(string \<times> pyval) list"

datatype job =
    Send_booking_confirmation_email pydict string
  | Send_booking_cancellation_email pydict string

text \<open>
  What a view answers when it does not succeed: the three error responses the views
  build themselves, the validation failure of a serializer, and an exception that
  leaves the view (answered with status 500 by the framework).
\<close>

datatype error =
    Bad_request string
  | Forbidden string
  | Not_found string
  | Conflict_error
  | Unhandled string

text \<open>
  The state the request handlers and tasks share: the four tables, the broker's queue
  of jobs (in the order of the \<open>delay\<close> calls) and the references the gateway's
  verify operation was called with.
\<close>

record world =
  listings :: "listing list"
  bookings :: "booking list"
  payments :: "payment list"
  users :: "user list"
  queue :: "job list"
  gateway_calls :: "string list"

section \<open>The object-relational layer\<close>

definition get_booking :: "nat \<Rightarrow> booking list \<Rightarrow> booking option" where
  "get_booking k bs = find (\<lambda>b. b_id b = k) bs"

definition get_listing :: "nat \<Rightarrow> listing list \<Rightarrow> listing option" where
  "get_listing k ls = find (\<lambda>l. l_id l = k) ls"

definition get_user :: "nat \<Rightarrow> user list \<Rightarrow> user option" where
  "get_user k us = find (\<lambda>u. u_id u = k) us"

text \<open>\<open>instance.save()\<close>: the row with the instance's key is rewritten, or inserted.\<close>

definition save_booking :: "booking \<Rightarrow> booking list \<Rightarrow> booking list" where
  "save_booking b bs =
     (if list_ex (\<lambda>x. b_id x = b_id b) bs
      then map (\<lambda>x. if b_id x = b_id b then b else x) bs
      else bs @ [b])"

definition save_payment :: "payment \<Rightarrow> payment list \<Rightarrow> payment list" where
  "save_payment p ps =
     (if list_ex (\<lambda>x. p_id x = p_id p) ps
      then map (\<lambda>x. if p_id x = p_id p then p else x) ps
      else ps @ [p])"

definition pystr_opt :: "string option \<Rightarrow> pyval" where
  "pystr_opt s = (case s of None \<Rightarrow> PNone | Some t \<Rightarrow> PStr t)"

section \<open>Payment verification (views.py, verify_payment)\<close>

definition verify_respond :: "payment \<Rightarrow> world \<Rightarrow> (error + pydict) \<times> world" where
  "verify_respond payment w =
     (Inr [(''status'', PStr (p_status payment)),
           (''message'', PStr (''Payment '' @ p_status payment)),
           (''payment_id'', PInt (int (p_id payment))),
           (''booking_id'', (case p_booking payment of None \<Rightarrow> PNone | Some k \<Rightarrow> PInt (int k)))],
      w\<lparr>payments := save_payment payment (payments w)\<rparr>)"

definition paid_booking_data :: "booking \<Rightarrow> listing \<Rightarrow> timestamp \<Rightarrow> pydict" where
  "paid_booking_data booking l paid =
     [(''booking_id'', PInt (int (b_id booking))),
      (''confirmation_number'', pystr_opt (b_confirmation_number booking)),
      (''listing_title'', PStr (l_title l)),
      (''check_in'', PDate (b_check_in booking)),
      (''check_out'', PDate (b_check_out booking)),
      (''guests'', PInt (b_guests booking)),
      (''total_price'', PDecimal (b_total_price booking)),
      (''paid_at'', PStrftime paid)]"

definition verify_success ::
  "chapa_json \<Rightarrow> timestamp \<Rightarrow> timestamp \<Rightarrow> payment \<Rightarrow> world \<Rightarrow> (error + pydict) \<times> world" where
  "verify_success chapa_response now1 now2 payment0 w =
     (let payment = payment0\<lparr>p_status := ''completed'', p_paid_at := Some now1,
                             p_chapa_verification_response := Some chapa_response\<rparr>
      in case p_booking payment of
           None \<Rightarrow> verify_respond payment w
         | Some k \<Rightarrow>
             (case get_booking k (bookings w) of
                None \<Rightarrow> (Inl (Unhandled ''Booking.DoesNotExist''), w)
              | Some booking0 \<Rightarrow>
                  (let booking = booking0\<lparr>b_status := ''confirmed'',
                                          b_payment_status := Some ''completed'',
                                          b_paid_at := Some now2\<rparr>;
                       w1 = w\<lparr>bookings := save_booking booking (bookings w)\<rparr>
                   in case get_listing (b_listing booking) (listings w1) of
                        None \<Rightarrow> (Inl (Unhandled ''Listing.DoesNotExist''), w1)
                      | Some l \<Rightarrow>
                          (case get_user (b_guest booking) (users w1) of
                             None \<Rightarrow> (Inl (Unhandled ''User.DoesNotExist''), w1)
                           | Some g \<Rightarrow>
                               verify_respond payment
                                 (w1\<lparr>queue := queue w1 @
                                    [Send_booking_confirmation_email
                                       (paid_booking_data booking l now2) (u_email g)]\<rparr>)))))"

definition verify_failed :: "chapa_json \<Rightarrow> payment \<Rightarrow> world \<Rightarrow> (error + pydict) \<times> world" where
  "verify_failed chapa_response payment0 w =
     (let payment = payment0\<lparr>p_status := ''failed'',
                             p_chapa_verification_response := Some chapa_response\<rparr>
      in case p_booking payment of
           None \<Rightarrow> verify_respond payment w
         | Some k \<Rightarrow>
             (case get_booking k (bookings w) of
                None \<Rightarrow> (Inl (Unhandled ''Booking.DoesNotExist''), w)
              | Some booking0 \<Rightarrow>
                  verify_respond payment
                    (w\<lparr>bookings :=
                         save_booking (booking0\<lparr>b_payment_status := Some ''failed''\<rparr>) (bookings w)\<rparr>)))"

text \<open>
  The view calls the gateway before it looks the payment up. \<open>now1\<close> and \<open>now2\<close> are
  the readings of the two \<open>timezone.now()\<close> calls of the success branch, in order.
\<close>

definition verify_payment ::
  "(string \<Rightarrow> gateway_result) \<Rightarrow> timestamp \<Rightarrow> timestamp \<Rightarrow> string \<Rightarrow> world
     \<Rightarrow> (error + pydict) \<times> world" where
  "verify_payment verify_chapa_transaction now1 now2 reference w =
     (let w1 = w\<lparr>gateway_calls := gateway_calls w @ [reference]\<rparr>
      in case verify_chapa_transaction reference of
           Gateway_raised \<Rightarrow> (Inl (Unhandled ''verify_chapa_transaction''), w1)
         | Gateway_returned chapa_response \<Rightarrow>
             (case filter (\<lambda>p. p_reference p = reference) (payments w1) of
                [] \<Rightarrow> (Inl (Not_found ''Payment not found''), w1)
              | [payment] \<Rightarrow>
                  (case data_status chapa_response of
                     None \<Rightarrow> (Inl (Unhandled ''KeyError''), w1)
                   | Some status_value \<Rightarrow>
                       if status_value = ''success''
                       then verify_success chapa_response now1 now2 payment w1
                       else verify_failed chapa_response payment w1)
              | _ \<Rightarrow> (Inl (Unhandled ''MultipleObjectsReturned''), w1)))"

section \<open>Text helpers\<close>

text \<open>\<open>str.upper()\<close> and \<open>str.lower()\<close> on ASCII text, and \<open>str(n)\<close> of a count.\<close>

definition upper_char :: "char \<Rightarrow> char" where
  "upper_char c =
     (let n = (of_char c :: nat) in if 97 \<le> n \<and> n \<le> 122 then char_of (n - 32) else c)"

definition upper :: "string \<Rightarrow> string" where
  "upper s = map upper_char s"

definition lower_char :: "char \<Rightarrow> char" where
  "lower_char c =
     (let n = (of_char c :: nat) in if 65 \<le> n \<and> n \<le> 90 then char_of (n + 32) else c)"

definition lower :: "string \<Rightarrow> string" where
  "lower s = map lower_char s"

definition is_upper_alnum :: "char \<Rightarrow> bool" where
  "is_upper_alnum c =
     (let n = (of_char c :: nat) in (48 \<le> n \<and> n \<le> 57) \<or> (65 \<le> n \<and> n \<le> 90))"

fun starts_with :: "string \<Rightarrow> string \<Rightarrow> bool" where
  "starts_with hay [] = True"
| "starts_with [] (c # cs) = False"
| "starts_with (h # hay) (c # cs) = (h = c \<and> starts_with hay cs)"

fun contains :: "string \<Rightarrow> string \<Rightarrow> bool" where
  "contains [] needle = (needle = [])"
| "contains (h # hay) needle = (starts_with (h # hay) needle \<or> contains hay needle)"

text \<open>The \<open>icontains\<close> lookup: containment without regard to letter case.\<close>

definition icontains :: "string \<Rightarrow> string \<Rightarrow> bool" where
  "icontains hay needle = contains (lower hay) (lower needle)"

function decimal :: "nat \<Rightarrow> string" where
  "decimal n =
     (if n < 10 then [''0123456789'' ! n]
      else decimal (n div 10) @ [''0123456789'' ! (n mod 10)])"
  by pat_completeness auto
termination
  by (relation "measure id") auto

section \<open>UUIDs\<close>

text \<open>
  \<open>uuid.uuid4()\<close> draws a 128-bit value; \<open>str\<close> of it is its 32 lower-case hexadecimal
  digits, most significant first, grouped 8-4-4-4-12 with hyphens.
\<close>

definition hex_digit :: "nat \<Rightarrow> char" where
  "hex_digit n = ''0123456789abcdef'' ! (n mod 16)"

definition uuid_hex :: "128 word \<Rightarrow> string" where
  "uuid_hex u = map (\<lambda>i. hex_digit (unat (drop_bit (4 * (31 - i)) u))) [0..<32]"

definition uuid_str :: "128 word \<Rightarrow> string" where
  "uuid_str u =
     (let h = uuid_hex u
      in take 8 h @ ''-'' @ take 4 (drop 8 h) @ ''-'' @ take 4 (drop 12 h) @ ''-''
           @ take 4 (drop 16 h) @ ''-'' @ drop 20 h)"

section \<open>Listings (views.py, ListingViewSet)\<close>

text \<open>
  The listings with a confirmed or active booking that meets the requested dates:
  \<open>Booking.objects.filter(Q(check_in__lt=check_out) & Q(check_out__gt=check_in),
  status__in=['confirmed', 'active']).values_list('listing_id', flat=True)\<close>.
\<close>

definition unavailable_listings :: "date \<Rightarrow> date \<Rightarrow> booking list \<Rightarrow> nat list" where
  "unavailable_listings check_in check_out bs =
     map b_listing
       (filter (\<lambda>b. (b_check_in b < check_out \<and> b_check_out b > check_in)
                    \<and> b_status b \<in> set [''confirmed'', ''active'']) bs)"

definition exclude_ids :: "nat list \<Rightarrow> listing list \<Rightarrow> listing list" where
  "exclude_ids ks q = filter (\<lambda>l. l_id l \<notin> set ks) q"

text \<open>
  A query parameter of the list endpoint: missing or empty, text that is no date, or a
  date.
\<close>

datatype query_param = Q_absent | Q_invalid | Q_date date

definition listing_get_queryset ::
  "query_param \<Rightarrow> query_param \<Rightarrow> world \<Rightarrow> error + listing list" where
  "listing_get_queryset check_in check_out w =
     (let queryset = filter (\<lambda>l. l_status l = ''active'') (listings w)
      in case (check_in, check_out) of
           (Q_absent, _) \<Rightarrow> Inr queryset
         | (_, Q_absent) \<Rightarrow> Inr queryset
         | (Q_date ci, Q_date co) \<Rightarrow>
             Inr (exclude_ids (unavailable_listings ci co (bookings w)) queryset)
         | _ \<Rightarrow> Inl (Unhandled ''ValidationError''))"

record search_data =
  s_city :: "string option"
  s_country :: "string option"
  s_guests :: "int option"
  s_property_type :: "string option"
  s_min_price :: "int option"
  s_max_price :: "int option"
  s_check_in :: "date option"
  s_check_out :: "date option"
  s_amenities :: "string list option"

text \<open>\<open>if data.get(key): queryset = queryset.filter(...)\<close> for a text and a number.\<close>

definition filter_if_str ::
  "string option \<Rightarrow> (string \<Rightarrow> listing \<Rightarrow> bool) \<Rightarrow> listing list \<Rightarrow> listing list" where
  "filter_if_str v cond q =
     (case v of None \<Rightarrow> q | Some x \<Rightarrow> if x \<noteq> [] then filter (cond x) q else q)"

definition filter_if_num ::
  "int option \<Rightarrow> (int \<Rightarrow> listing \<Rightarrow> bool) \<Rightarrow> listing list \<Rightarrow> listing list" where
  "filter_if_num v cond q =
     (case v of None \<Rightarrow> q | Some x \<Rightarrow> if x \<noteq> 0 then filter (cond x) q else q)"

definition availability_check :: "search_data \<Rightarrow> booking list \<Rightarrow> listing list \<Rightarrow> listing list" where
  "availability_check data bs q =
     (case (s_check_in data, s_check_out data) of
        (Some ci, Some co) \<Rightarrow> exclude_ids (unavailable_listings ci co bs) q
      | _ \<Rightarrow> q)"

definition amenities_filter :: "search_data \<Rightarrow> listing list \<Rightarrow> listing list" where
  "amenities_filter data q =
     (case s_amenities data of
        None \<Rightarrow> q
      | Some names \<Rightarrow>
          if names \<noteq> [] then filter (\<lambda>l. list_ex (\<lambda>a. a \<in> set (l_amenities l)) names) q else q)"

text \<open>
  \<open>search\<close>: the argument is the serializer's validated data, or \<open>None\<close> when the request
  data is invalid. The result is the queryset the response is paginated and serialized
  from.
\<close>

definition search :: "search_data option \<Rightarrow> world \<Rightarrow> error + listing list" where
  "search validated w =
     (case validated of
        None \<Rightarrow> Inl (Bad_request ''serializer.errors'')
      | Some data \<Rightarrow>
          Inr (amenities_filter data
                (availability_check data (bookings w)
                  (filter_if_num (s_max_price data) (\<lambda>x l. l_base_price l \<le> x)
                    (filter_if_num (s_min_price data) (\<lambda>x l. l_base_price l \<ge> x)
                      (filter_if_str (s_property_type data) (\<lambda>x l. l_property_type l = x)
                        (filter_if_num (s_guests data) (\<lambda>x l. l_max_guests l \<ge> x)
                          (filter_if_str (s_country data) (\<lambda>x l. icontains (l_country l) x)
                            (filter_if_str (s_city data) (\<lambda>x l. icontains (l_city l) x)
                              (filter (\<lambda>l. l_status l = ''active'') (listings w)))))))))))"

section \<open>Bookings (views.py, BookingViewSet)\<close>

definition booking_get_queryset :: "user \<Rightarrow> world \<Rightarrow> booking list" where
  "booking_get_queryset usr w =
     (if u_is_staff usr then bookings w else filter (\<lambda>b. b_guest b = u_id usr) (bookings w))"

text \<open>
  \<open>self.get_object()\<close> of the framework's generic view: the row of the viewset's own
  queryset with the requested key, or the 404 response.
\<close>

definition get_object :: "user \<Rightarrow> nat \<Rightarrow> world \<Rightarrow> error + booking" where
  "get_object usr pk w =
     (case find (\<lambda>b. b_id b = pk) (booking_get_queryset usr w) of
        None \<Rightarrow> Inl (Not_found ''Not found.'')
      | Some b \<Rightarrow> Inr b)"

text \<open>
  The validated data of a create request. The serializer has resolved the listing key to
  its row.
\<close>

record booking_request =
  r_listing :: listing
  r_check_in :: date
  r_check_out :: date
  r_guests :: int
  r_total_price :: int
  r_confirmation_number :: "string option"

definition fresh_id :: "nat list \<Rightarrow> nat" where
  "fresh_id ks = Suc (fold max ks 0)"

text \<open>
  Modelled from the spec: the Booking model (models.py), whose field defaults decide
  the row that \<open>serializer.save(guest=...)\<close> inserts, is not among the sources. From
  the specification: a booking is persisted with status pending; its timestamps
  confirmed_at, cancelled_at and paid_at are set by the later transitions. The key is
  the next unused one, and payment_status is empty until a payment step writes it.
\<close>

definition serializer_save :: "booking_request \<Rightarrow> user \<Rightarrow> timestamp \<Rightarrow> booking list \<Rightarrow> booking" where
  "serializer_save r guest now bs =
     \<lparr>b_id = fresh_id (map b_id bs), b_listing = l_id (r_listing r), b_guest = u_id guest,
      b_check_in = r_check_in r, b_check_out = r_check_out r, b_guests = r_guests r,
      b_total_price = r_total_price r, b_status = ''pending'',
      b_confirmation_number = r_confirmation_number r, b_payment_status = None,
      b_created_at = now, b_updated_at = now, b_confirmed_at = None,
      b_cancelled_at = None, b_paid_at = None\<rparr>"

text \<open>
  \<open>initialize_payment\<close>: \<open>create_raises\<close> tells whether \<open>Payment.objects.create\<close> raises
  (the handler then prints the error and returns \<open>None\<close>); \<open>u\<close> is the UUID drawn for
  the reference. Fields the call does not pass are empty.
\<close>

definition initialize_payment ::
  "bool \<Rightarrow> 128 word \<Rightarrow> booking \<Rightarrow> world \<Rightarrow> payment option \<times> world" where
  "initialize_payment create_raises u booking w =
     (if create_raises then (None, w)
      else
        (let payment =
               \<lparr>p_id = fresh_id (map p_id (payments w)), p_booking = Some (b_id booking),
                p_amount = b_total_price booking, p_email = [], p_reference = uuid_str u,
                p_transaction_id = [], p_status = ''pending'',
                p_chapa_verification_response = None, p_paid_at = None\<rparr>
         in (Some payment, w\<lparr>payments := payments w @ [payment]\<rparr>)))"

definition created_booking_data :: "booking \<Rightarrow> listing \<Rightarrow> pydict" where
  "created_booking_data booking l =
     [(''booking_id'', PInt (int (b_id booking))),
      (''confirmation_number'', pystr_opt (b_confirmation_number booking)),
      (''listing_title'', PStr (l_title l)),
      (''check_in'', PDate (b_check_in booking)),
      (''check_out'', PDate (b_check_out booking)),
      (''guests'', PInt (b_guests booking)),
      (''total_price'', PDecimal (b_total_price booking)),
      (''created_at'', PStrftime (b_created_at booking)),
      (''status'', PStr (b_status booking))]"

text \<open>\<open>not booking.confirmation_number\<close>: no value, or the empty text.\<close>

definition no_confirmation_number :: "booking \<Rightarrow> bool" where
  "no_confirmation_number b =
     (case b_confirmation_number b of None \<Rightarrow> True | Some s \<Rightarrow> s = [])"

text \<open>
  \<open>perform_create\<close>: \<open>u1\<close> is the UUID drawn for the confirmation number (when one is
  drawn), \<open>u2\<close> the one for the payment reference.
\<close>

definition perform_create ::
  "bool \<Rightarrow> 128 word \<Rightarrow> 128 word \<Rightarrow> timestamp \<Rightarrow> user \<Rightarrow> booking_request \<Rightarrow> world
     \<Rightarrow> booking \<times> world" where
  "perform_create create_raises u1 u2 now usr r w =
     (let booking0 = serializer_save r usr now (bookings w);
          w1 = w\<lparr>bookings := bookings w @ [booking0]\<rparr>;
          booking = (if no_confirmation_number booking0
                     then booking0\<lparr>b_confirmation_number := Some (upper (take 8 (uuid_str u1)))\<rparr>
                     else booking0);
          w2 = (if no_confirmation_number booking0
                then w1\<lparr>bookings := save_booking booking (bookings w1)\<rparr>
                else w1);
          w3 = w2\<lparr>queue := queue w2 @
                 [Send_booking_confirmation_email
                    (created_booking_data booking (r_listing r)) (u_email usr)]\<rparr>
      in if b_total_price booking > 0
         then (booking, snd (initialize_payment create_raises u2 booking w3))
         else (booking, w3))"

text \<open>
  Modelled from the spec: CreateBookingSerializer (serializers.py), whose validation
  runs before \<open>perform_create\<close>, is not among the sources. From the specification:
  Create validates that no overlapping confirmed or active booking exists for the
  listing over the requested dates and fails with ConflictError if one exists.
\<close>

definition validate_booking :: "booking_request \<Rightarrow> world \<Rightarrow> error + booking_request" where
  "validate_booking r w =
     (if l_id (r_listing r) \<in> set (unavailable_listings (r_check_in r) (r_check_out r) (bookings w))
      then Inl Conflict_error
      else Inr r)"

text \<open>The create action of the framework: validate, then \<open>perform_create\<close>.\<close>

definition create ::
  "bool \<Rightarrow> 128 word \<Rightarrow> 128 word \<Rightarrow> timestamp \<Rightarrow> user \<Rightarrow> booking_request \<Rightarrow> world
     \<Rightarrow> (error + booking) \<times> world" where
  "create create_raises u1 u2 now usr r w =
     (case validate_booking r w of
        Inl e \<Rightarrow> (Inl e, w)
      | Inr r' \<Rightarrow>
          (let (booking, w') = perform_create create_raises u1 u2 now usr r' w
           in (Inr booking, w')))"

text \<open>
  Modelled from the spec: \<open>Booking.can_be_cancelled\<close> (models.py) is not among the
  sources. From the specification: a computed predicate, a business rule over the time
  before check-in and the current status, which is false for a booking that is already
  cancelled. \<open>rule\<close> is whatever else the business rule demands.
\<close>

definition can_be_cancelled :: "(timestamp \<Rightarrow> booking \<Rightarrow> bool) \<Rightarrow> timestamp \<Rightarrow> booking \<Rightarrow> bool" where
  "can_be_cancelled rule now b = (b_status b \<noteq> ''cancelled'' \<and> rule now b)"

definition cancelled_booking_data :: "booking \<Rightarrow> listing \<Rightarrow> timestamp \<Rightarrow> pydict" where
  "cancelled_booking_data booking l cancelled =
     [(''booking_id'', PInt (int (b_id booking))),
      (''confirmation_number'', pystr_opt (b_confirmation_number booking)),
      (''listing_title'', PStr (l_title l)),
      (''cancellation_date'', PStrftime cancelled)]"

text \<open>
  \<open>cancel\<close>: \<open>has_attr\<close> is \<open>hasattr(booking, 'can_be_cancelled')\<close>, \<open>now\<close> the reading of
  \<open>timezone.now()\<close>. The cancellation email goes to the requesting user.
\<close>

definition cancel ::
  "bool \<Rightarrow> (timestamp \<Rightarrow> booking \<Rightarrow> bool) \<Rightarrow> timestamp \<Rightarrow> user \<Rightarrow> nat \<Rightarrow> world
     \<Rightarrow> (error + booking) \<times> world" where
  "cancel has_attr rule now usr pk w =
     (case get_object usr pk w of
        Inl e \<Rightarrow> (Inl e, w)
      | Inr booking0 \<Rightarrow>
          if b_guest booking0 \<noteq> u_id usr \<and> \<not> u_is_staff usr
          then (Inl (Forbidden ''You do not have permission to cancel this booking.''), w)
          else if \<not> has_attr \<or> \<not> can_be_cancelled rule now booking0
          then (Inl (Bad_request ''This booking cannot be cancelled.''), w)
          else
            (let booking = booking0\<lparr>b_status := ''cancelled'', b_cancelled_at := Some now\<rparr>;
                 w1 = w\<lparr>bookings := save_booking booking (bookings w)\<rparr>
             in case get_listing (b_listing booking) (listings w1) of
                  None \<Rightarrow> (Inl (Unhandled ''Listing.DoesNotExist''), w1)
                | Some l \<Rightarrow>
                    (Inr booking,
                     w1\<lparr>queue := queue w1 @
                        [Send_booking_cancellation_email
                           (cancelled_booking_data booking l now) (u_email usr)]\<rparr>)))"

definition confirmed_booking_data :: "booking \<Rightarrow> listing \<Rightarrow> timestamp \<Rightarrow> pydict" where
  "confirmed_booking_data booking l confirmed =
     [(''booking_id'', PInt (int (b_id booking))),
      (''confirmation_number'', pystr_opt (b_confirmation_number booking)),
      (''listing_title'', PStr (l_title l)),
      (''check_in'', PDate (b_check_in booking)),
      (''check_out'', PDate (b_check_out booking)),
      (''confirmed_at'', PStrftime confirmed)]"

definition confirm_save :: "timestamp \<Rightarrow> booking \<Rightarrow> world \<Rightarrow> (error + booking) \<times> world" where
  "confirm_save now booking0 w =
     (let booking = booking0\<lparr>b_status := ''confirmed'', b_confirmed_at := Some now\<rparr>;
          w1 = w\<lparr>bookings := save_booking booking (bookings w)\<rparr>
      in case get_listing (b_listing booking) (listings w1) of
           None \<Rightarrow> (Inl (Unhandled ''Listing.DoesNotExist''), w1)
         | Some l \<Rightarrow>
             (case get_user (b_guest booking) (users w1) of
                None \<Rightarrow> (Inl (Unhandled ''User.DoesNotExist''), w1)
              | Some g \<Rightarrow>
                  (Inr booking,
                   w1\<lparr>queue := queue w1 @
                      [Send_booking_confirmation_email
                         (confirmed_booking_data booking l now) (u_email g)]\<rparr>)))"

text \<open>
  \<open>confirm\<close>: the permission test reads the listing's host only when the requesting
  user is not staff.
\<close>

definition confirm :: "timestamp \<Rightarrow> user \<Rightarrow> nat \<Rightarrow> world \<Rightarrow> (error + booking) \<times> world" where
  "confirm now usr pk w =
     (case get_object usr pk w of
        Inl e \<Rightarrow> (Inl e, w)
      | Inr booking0 \<Rightarrow>
          if u_is_staff usr then confirm_save now booking0 w
          else
            (case get_listing (b_listing booking0) (listings w) of
               None \<Rightarrow> (Inl (Unhandled ''Listing.DoesNotExist''), w)
             | Some l \<Rightarrow>
                 if l_host l \<noteq> u_id usr
                 then (Inl (Forbidden ''Only the host or admin can confirm bookings.''), w)
                 else confirm_save now booking0 w))"

section \<open>Notification and maintenance tasks (tasks.py)\<close>

record email_message =
  e_template :: string
  e_subject_id :: pyval
  e_context :: pydict
  e_from :: string
  e_to :: "string list"
  e_cc :: "string list"

text \<open>What a worker leaves behind: the messages handed to the mail transport, and its log.\<close>

record mailer =
  outbox :: "email_message list"
  log :: "string list"

text \<open>\<open>d.get(key, default)\<close>.\<close>

definition py_get :: "pydict \<Rightarrow> string \<Rightarrow> pyval \<Rightarrow> pyval" where
  "py_get d k dflt = (case map_of d k of None \<Rightarrow> dflt | Some v \<Rightarrow> v)"

definition confirmation_context :: "pydict \<Rightarrow> string \<Rightarrow> timestamp \<Rightarrow> pydict" where
  "confirmation_context booking_data user_email now =
     [(''booking'', PDict booking_data),
      (''user_email'', PStr user_email),
      (''booking_date'', py_get booking_data ''created_at'' (PDatetime now)),
      (''confirmation_number'', py_get booking_data ''confirmation_number'' (PStr ''N/A''))]"

text \<open>
  How one run of a task body ends: it returns, it asks the broker to deliver the task
  again (with the new retry count, after a countdown in seconds), or it raises.
\<close>

datatype task_outcome = Returned string | Retry nat nat | Raised string

text \<open>
  \<open>self.retry(exc=e, countdown=c)\<close> of the task queue library: with \<open>request.retries\<close>
  deliveries already retried, one more is scheduled unless that would exceed the task's
  \<open>max_retries\<close>; then the exception passed in is raised and the task fails.
\<close>

definition task_retry :: "nat \<Rightarrow> nat \<Rightarrow> string \<Rightarrow> nat \<Rightarrow> task_outcome" where
  "task_retry task_max_retries request_retries exc countdown =
     (let retries = request_retries + 1
      in if retries > task_max_retries then Raised exc else Retry retries countdown)"

definition max_retries :: nat where
  "max_retries = 3"

text \<open>
  \<open>send_booking_confirmation_email\<close>: \<open>failure\<close> is the message of the exception that
  rendering or sending raises in this run, if any; \<open>from_email\<close> is
  \<open>settings.DEFAULT_FROM_EMAIL\<close>.
\<close>

definition send_booking_confirmation_email ::
  "string option \<Rightarrow> string \<Rightarrow> nat \<Rightarrow> timestamp \<Rightarrow> pydict \<Rightarrow> string \<Rightarrow> mailer
     \<Rightarrow> task_outcome \<times> mailer" where
  "send_booking_confirmation_email failure from_email request_retries now booking_data user_email m =
     (case failure of
        None \<Rightarrow>
          (Returned (''Email sent to '' @ user_email),
           m\<lparr>outbox := outbox m @
                [\<lparr>e_template = ''listings/emails/booking_confirmation.html'',
                  e_subject_id = py_get booking_data ''booking_id'' (PStr ''New Booking''),
                  e_context = confirmation_context booking_data user_email now,
                  e_from = from_email, e_to = [user_email], e_cc = [from_email]\<rparr>],
              log := log m @ [''INFO Booking confirmation email sent successfully to '' @ user_email]\<rparr>)
      | Some e \<Rightarrow>
          (task_retry max_retries request_retries e 300,
           m\<lparr>log := log m @ [''ERROR Failed to send booking confirmation email: '' @ e]\<rparr>))"

datatype task_state = SUCCESS string | FAILURE string

text \<open>
  The worker's handling of one enqueued confirmation job, from its first delivery
  (\<open>retries = 0\<close>) on: it runs the body, and on a retry request runs the delivery that
  the broker makes after the countdown. \<open>failures n\<close> is what the \<open>n\<close>-th retry meets,
  \<open>clock n\<close> the time it runs at. The result is the final state of the task and the list
  of the retries that were scheduled, each with its countdown.
\<close>

function run_confirmation_job ::
  "(nat \<Rightarrow> string option) \<Rightarrow> string \<Rightarrow> (nat \<Rightarrow> timestamp) \<Rightarrow> pydict \<Rightarrow> string \<Rightarrow> nat \<Rightarrow> mailer
     \<Rightarrow> (task_state \<times> (nat \<times> nat) list) \<times> mailer" where
  "run_confirmation_job failures from_email clock booking_data user_email retries m =
     (case send_booking_confirmation_email (failures retries) from_email retries (clock retries)
             booking_data user_email m of
        (Returned s, m') \<Rightarrow> ((SUCCESS s, []), m')
      | (Raised e, m') \<Rightarrow> ((FAILURE e, []), m')
      | (Retry r c, m') \<Rightarrow>
          (let ((st, rs), m'') =
                 run_confirmation_job failures from_email clock booking_data user_email r m'
           in ((st, (r, c) # rs), m'')))"
  by pat_completeness auto
termination
proof (relation "measure (\<lambda>(failures, from_email, clock, booking_data, user_email, retries, m).
                            Suc max_retries - retries)")
  show "wf (measure (\<lambda>(failures, from_email, clock, booking_data, user_email, retries, m).
                            Suc max_retries - retries))"
    by simp
next
  fix failures :: "nat \<Rightarrow> string option" and from_email :: string and clock :: "nat \<Rightarrow> timestamp"
    and booking_data :: pydict and user_email :: string and retries :: nat and m x y :: mailer
    and outcome :: task_outcome and r c :: nat
  assume "(outcome, y) = send_booking_confirmation_email (failures retries) from_email retries
            (clock retries) booking_data user_email m"
    and "outcome = Retry r c"
  then have "r = Suc retries \<and> retries < max_retries"
    by (auto simp: send_booking_confirmation_email_def task_retry_def Let_def
             split: option.splits if_splits)
  then show "((failures, from_email, clock, booking_data, user_email, r, y),
              (failures, from_email, clock, booking_data, user_email, retries, m))
             \<in> measure (\<lambda>(failures, from_email, clock, booking_data, user_email, retries, m).
                            Suc max_retries - retries)"
    by (simp add: less_imp_le Suc_diff_le)
qed

definition timedelta_days :: "int \<Rightarrow> int" where
  "timedelta_days d = d * 86400000000"

definition old_cancelled :: "timestamp \<Rightarrow> booking \<Rightarrow> bool" where
  "old_cancelled cutoff_date b = (b_status b = ''cancelled'' \<and> b_updated_at b < cutoff_date)"

text \<open>
  \<open>cleanup_old_bookings\<close>: \<open>orm_error\<close> is the message of the exception the queries raise,
  if any (the handler then answers with it and nothing is deleted). Rows of other tables
  that point to a deleted booking are left as they are: what happens to them is declared
  in models.py.
\<close>

definition cleanup_old_bookings :: "string option \<Rightarrow> timestamp \<Rightarrow> world \<Rightarrow> string \<times> world" where
  "cleanup_old_bookings orm_error now w =
     (case orm_error of
        Some e \<Rightarrow> (''Error: '' @ e, w)
      | None \<Rightarrow>
          (let cutoff_date = now - timedelta_days 30;
               count = length (filter (old_cancelled cutoff_date) (bookings w))
           in (''Cleaned up '' @ decimal count @ '' old cancelled bookings'',
               w\<lparr>bookings := filter (\<lambda>b. \<not> old_cancelled cutoff_date b) (bookings w)\<rparr>)))"

declare run_confirmation_job.simps [simp del]
declare decimal.simps [simp del]

section \<open>Sample data\<close>

text \<open>
  A small store: a guest, a host and an administrator; one active listing of the host;
  one pending booking of the guest for it, with one pending payment.
\<close>

definition demo_user :: user where
  "demo_user = \<lparr>u_id = 1, u_email = ''guest@example.com'', u_is_staff = False\<rparr>"

definition demo_host :: user where
  "demo_host = \<lparr>u_id = 2, u_email = ''host@example.com'', u_is_staff = False\<rparr>"

definition demo_admin :: user where
  "demo_admin = \<lparr>u_id = 3, u_email = ''admin@example.com'', u_is_staff = True\<rparr>"

definition demo_listing :: listing where
  "demo_listing = \<lparr>l_id = 1, l_host = 2, l_title = ''Luxury Beach Villa'', l_city = ''Accra'',
     l_country = ''Ghana'', l_max_guests = 4, l_property_type = ''villa'', l_base_price = 15000,
     l_status = ''active'', l_amenities = [''has_wifi'']\<rparr>"

definition demo_booking :: booking where
  "demo_booking = \<lparr>b_id = 7, b_listing = 1, b_guest = 1, b_check_in = 100, b_check_out = 105,
     b_guests = 2, b_total_price = 75000, b_status = ''pending'',
     b_confirmation_number = Some ''1A2B3C4D'', b_payment_status = Some ''pending'',
     b_created_at = 5, b_updated_at = 5, b_confirmed_at = None, b_cancelled_at = None,
     b_paid_at = None\<rparr>"

definition demo_payment :: payment where
  "demo_payment = \<lparr>p_id = 4, p_booking = Some 7, p_amount = 75000, p_email = ''guest@example.com'',
     p_reference = ''ref-1'', p_transaction_id = ''tx-1'', p_status = ''pending'',
     p_chapa_verification_response = None, p_paid_at = None\<rparr>"

definition demo_world :: world where
  "demo_world = \<lparr>listings = [demo_listing], bookings = [demo_booking], payments = [demo_payment],
     users = [demo_user, demo_host, demo_admin], queue = [], gateway_calls = []\<rparr>"

definition gateway_says :: "string \<Rightarrow> string \<Rightarrow> gateway_result" where
  "gateway_says status_value reference = Gateway_returned (Chapa_json (Some status_value))"

text \<open>
  Variants of the store: with a second, cancelled booking; with the booking confirmed;
  and a create request for dates that meet the booking's, with the booking and the payment
  it leads to.
\<close>

definition demo_cancelled :: booking where
  "demo_cancelled =
     demo_booking\<lparr>b_id := 9, b_status := ''cancelled'', b_cancelled_at := Some 8\<rparr>"

definition demo_cancelled_world :: world where
  "demo_cancelled_world = demo_world\<lparr>bookings := [demo_booking, demo_cancelled]\<rparr>"

definition demo_confirmed_world :: world where
  "demo_confirmed_world = demo_world\<lparr>bookings := [demo_booking\<lparr>b_status := ''confirmed''\<rparr>]\<rparr>"

definition demo_request :: booking_request where
  "demo_request = \<lparr>r_listing = demo_listing, r_check_in = 103, r_check_out = 108, r_guests = 2,
     r_total_price = 75000, r_confirmation_number = None\<rparr>"

definition demo_created :: booking where
  "demo_created = \<lparr>b_id = 8, b_listing = 1, b_guest = 1, b_check_in = 103, b_check_out = 108,
     b_guests = 2, b_total_price = 75000, b_status = ''pending'',
     b_confirmation_number = Some ''1A2B3C4D'', b_payment_status = None,
     b_created_at = 50, b_updated_at = 50, b_confirmed_at = None, b_cancelled_at = None,
     b_paid_at = None\<rparr>"

definition demo_created_payment :: payment where
  "demo_created_payment = \<lparr>p_id = 5, p_booking = Some 8, p_amount = 75000, p_email = [],
     p_reference = ''00000000-0000-4000-8000-000000000001'', p_transaction_id = [],
     p_status = ''pending'', p_chapa_verification_response = None, p_paid_at = None\<rparr>"

definition demo_created_world :: world where
  "demo_created_world =
     demo_world\<lparr>bookings := [demo_booking, demo_created],
       queue := [Send_booking_confirmation_email (created_booking_data demo_created demo_listing)
                   ''guest@example.com''],
       payments := [demo_payment, demo_created_payment]\<rparr>"

text \<open>
  A search for the dates of the request and nothing else; the store with the listing
  taken off the market and no bookings; and a store for the cleanup, read forty days
  after the epoch: a booking cancelled 31 days ago, one cancelled 29 days ago, and a
  confirmed one untouched for forty days.
\<close>

definition demo_search :: search_data where
  "demo_search = \<lparr>s_city = None, s_country = None, s_guests = None, s_property_type = None,
     s_min_price = None, s_max_price = None, s_check_in = Some 103, s_check_out = Some 108,
     s_amenities = None\<rparr>"

definition demo_inactive_world :: world where
  "demo_inactive_world =
     demo_world\<lparr>listings := [demo_listing\<lparr>l_status := ''inactive''\<rparr>], bookings := []\<rparr>"

definition demo_stale :: booking where
  "demo_stale = demo_cancelled\<lparr>b_id := 10, b_updated_at := 777600000000\<rparr>"

definition demo_recent :: booking where
  "demo_recent = demo_cancelled\<lparr>b_id := 11, b_updated_at := 950400000000\<rparr>"

definition demo_settled :: booking where
  "demo_settled = demo_booking\<lparr>b_id := 12, b_status := ''confirmed'', b_updated_at := 0\<rparr>"

definition demo_cleanup_world :: world where
  "demo_cleanup_world = demo_world\<lparr>bookings := [demo_stale, demo_recent, demo_settled]\<rparr>"

definition demo_mailer :: mailer where
  "demo_mailer = \<lparr>outbox = [], log = []\<rparr>"

section \<open>Rows read back after a save\<close>

lemma get_booking_id: "get_booking k bs = Some B \<Longrightarrow> b_id B = k"
  by (auto simp: get_booking_def find_Some_iff)

lemma find_map_replace:
  "find (\<lambda>b. b_id b = k) bs = Some B \<Longrightarrow> b_id B' = k \<Longrightarrow>
   find (\<lambda>b. b_id b = k) (map (\<lambda>x. if b_id x = k then B' else x) bs) = Some B'"
  by (induction bs) (auto split: if_splits)

lemma get_booking_save:
  assumes "get_booking k bs = Some B" and "b_id B' = k"
  shows "get_booking k (save_booking B' bs) = Some B'"
proof -
  from assms(1) have "B \<in> set bs" and "b_id B = k"
    by (auto simp: get_booking_def find_Some_iff)
  then have "list_ex (\<lambda>x. b_id x = b_id B') bs"
    using assms(2) by (auto simp: list_ex_iff)
  then show ?thesis
    using assms find_map_replace [of k bs B B']
    by (simp add: save_booking_def get_booking_def)
qed

section \<open>Payment verification\<close>

text \<open>
  C1. Let \<open>p\<close> be the payment that the reference identifies, linked to the booking \<open>B\<close>
  (whose listing and guest exist), and let the gateway answer with status "success".
  Then \<open>verify_payment\<close> stores \<open>p\<close> with status completed and paid_at the current
  time, stores \<open>B\<close> with status confirmed, payment_status completed and paid_at the
  current time, and appends exactly one confirmation-email job, addressed to the guest,
  to the queue. Nothing else changes but the record of the gateway call.
\<close>

theorem verify_payment_success:
  assumes "verify_chapa_transaction (p_reference p) = Gateway_returned resp"
    and "data_status resp = Some ''success''"
    and "filter (\<lambda>q. p_reference q = p_reference p) (payments w) = [p]"
    and "p_booking p = Some k"
    and "get_booking k (bookings w) = Some B"
    and "get_listing (b_listing B) (listings w) = Some l"
    and "get_user (b_guest B) (users w) = Some g"
  shows "let B' = B\<lparr>b_status := ''confirmed'', b_payment_status := Some ''completed'',
                     b_paid_at := Some now2\<rparr>;
             p' = p\<lparr>p_status := ''completed'', p_paid_at := Some now1,
                     p_chapa_verification_response := Some resp\<rparr>
         in verify_payment verify_chapa_transaction now1 now2 (p_reference p) w =
              (Inr [(''status'', PStr ''completed''),
                    (''message'', PStr ''Payment completed''),
                    (''payment_id'', PInt (int (p_id p))),
                    (''booking_id'', PInt (int k))],
               w\<lparr>gateway_calls := gateway_calls w @ [p_reference p],
                 bookings := save_booking B' (bookings w),
                 queue := queue w @
                    [Send_booking_confirmation_email (paid_booking_data B' l now2) (u_email g)],
                 payments := save_payment p' (payments w)\<rparr>)
            \<and> get_booking k (save_booking B' (bookings w)) = Some B'"
proof -
  have "b_id (B\<lparr>b_status := ''confirmed'', b_payment_status := Some ''completed'',
                 b_paid_at := Some now2\<rparr>) = k"
    using assms(5) by (simp add: get_booking_id)
  then show ?thesis
    using assms get_booking_save [OF assms(5)]
    by (simp add: verify_payment_def verify_success_def verify_respond_def Let_def)
qed

theorem verify_payment_success_witness:
  "verify_payment (gateway_says ''success'') 10 11 ''ref-1'' demo_world =
     (Inr [(''status'', PStr ''completed''),
           (''message'', PStr ''Payment completed''),
           (''payment_id'', PInt 4),
           (''booking_id'', PInt 7)],
      demo_world\<lparr>gateway_calls := [''ref-1''],
        bookings := [demo_booking\<lparr>b_status := ''confirmed'',
                       b_payment_status := Some ''completed'', b_paid_at := Some 11\<rparr>],
        queue := [Send_booking_confirmation_email
                    (paid_booking_data
                       (demo_booking\<lparr>b_status := ''confirmed'',
                          b_payment_status := Some ''completed'', b_paid_at := Some 11\<rparr>)
                       demo_listing 11)
                    ''guest@example.com''],
        payments := [demo_payment\<lparr>p_status := ''completed'', p_paid_at := Some 10,
                       p_chapa_verification_response := Some (Chapa_json (Some ''success''))\<rparr>]\<rparr>)"
  using verify_payment_success [where verify_chapa_transaction = "gateway_says ''success''"
      and p = demo_payment and resp = "Chapa_json (Some ''success'')" and w = demo_world
      and k = 7 and B = demo_booking and l = demo_listing and g = demo_user
      and ?now1.0 = 10 and ?now2.0 = 11]
  by (simp add: demo_world_def demo_payment_def demo_booking_def demo_listing_def demo_user_def
        demo_host_def demo_admin_def gateway_says_def Let_def
        get_booking_def get_listing_def get_user_def save_booking_def save_payment_def)

text \<open>
  C2. Let \<open>p\<close> be the payment that the reference identifies, linked to the booking \<open>B\<close>,
  and let the gateway answer with any status other than "success". Then
  \<open>verify_payment\<close> stores \<open>p\<close> with status failed and stores \<open>B\<close> with payment_status
  failed; every other field of \<open>B\<close>, its status among them, is as before, and no job is
  enqueued.
\<close>

theorem verify_payment_failed:
  assumes "verify_chapa_transaction (p_reference p) = Gateway_returned resp"
    and "data_status resp = Some status_value"
    and "status_value \<noteq> ''success''"
    and "filter (\<lambda>q. p_reference q = p_reference p) (payments w) = [p]"
    and "p_booking p = Some k"
    and "get_booking k (bookings w) = Some B"
  shows "let B' = B\<lparr>b_payment_status := Some ''failed''\<rparr>;
             p' = p\<lparr>p_status := ''failed'', p_chapa_verification_response := Some resp\<rparr>
         in verify_payment verify_chapa_transaction now1 now2 (p_reference p) w =
              (Inr [(''status'', PStr ''failed''),
                    (''message'', PStr ''Payment failed''),
                    (''payment_id'', PInt (int (p_id p))),
                    (''booking_id'', PInt (int k))],
               w\<lparr>gateway_calls := gateway_calls w @ [p_reference p],
                 bookings := save_booking B' (bookings w),
                 payments := save_payment p' (payments w)\<rparr>)
            \<and> get_booking k (save_booking B' (bookings w)) = Some B'
            \<and> b_status B' = b_status B"
proof -
  have "b_id (B\<lparr>b_payment_status := Some ''failed''\<rparr>) = k"
    using assms(6) by (simp add: get_booking_id)
  then show ?thesis
    using assms get_booking_save [OF assms(6)]
    by (simp add: verify_payment_def verify_failed_def verify_respond_def Let_def)
qed

theorem verify_payment_failed_witness:
  "verify_payment (gateway_says ''pending'') 10 11 ''ref-1'' demo_world =
     (Inr [(''status'', PStr ''failed''),
           (''message'', PStr ''Payment failed''),
           (''payment_id'', PInt 4),
           (''booking_id'', PInt 7)],
      demo_world\<lparr>gateway_calls := [''ref-1''],
        bookings := [demo_booking\<lparr>b_payment_status := Some ''failed''\<rparr>],
        payments := [demo_payment\<lparr>p_status := ''failed'',
                       p_chapa_verification_response := Some (Chapa_json (Some ''pending''))\<rparr>]\<rparr>)
   \<and> b_status (demo_booking\<lparr>b_payment_status := Some ''failed''\<rparr>) = ''pending''"
  using verify_payment_failed [where verify_chapa_transaction = "gateway_says ''pending''"
      and p = demo_payment and resp = "Chapa_json (Some ''pending'')"
      and status_value = "''pending''" and w = demo_world and k = 7 and B = demo_booking
      and ?now1.0 = 10 and ?now2.0 = 11]
  by (simp add: demo_world_def demo_payment_def demo_booking_def gateway_says_def Let_def
        get_booking_def save_booking_def save_payment_def)

text \<open>
  C9, as amended. For a reference that no payment carries, \<open>verify_payment\<close> calls the
  gateway's verify operation with the reference first; when that call returns, the
  lookup of the payment fails with the 404 response "Payment not found", and no table
  and no queue changes.
\<close>

theorem verify_payment_missing:
  assumes "filter (\<lambda>q. p_reference q = reference) (payments w) = []"
    and "verify_chapa_transaction reference = Gateway_returned resp"
  shows "verify_payment verify_chapa_transaction now1 now2 reference w =
     (Inl (Not_found ''Payment not found''), w\<lparr>gateway_calls := gateway_calls w @ [reference]\<rparr>)"
  using assms by (simp add: verify_payment_def Let_def)

theorem verify_payment_missing_witness:
  "verify_payment (gateway_says ''success'') 10 11 ''ref-2'' demo_world =
     (Inl (Not_found ''Payment not found''), demo_world\<lparr>gateway_calls := [''ref-2'']\<rparr>)"
  using verify_payment_missing [where reference = "''ref-2''" and w = demo_world
      and verify_chapa_transaction = "gateway_says ''success''"
      and resp = "Chapa_json (Some ''success'')" and ?now1.0 = 10 and ?now2.0 = 11]
  by (simp add: demo_world_def demo_payment_def gateway_says_def)

text \<open>
  C9 as stated fails: for the reference "ref-404", which no payment of the sample store
  carries, the gateway's verify operation has been called when the view answers.
\<close>

theorem verify_payment_missing_counterexample:
  "gateway_calls demo_world = [] \<and>
   filter (\<lambda>q. p_reference q = ''ref-404'') (payments demo_world) = [] \<and>
   gateway_calls (snd (verify_payment (gateway_says ''success'') 10 11 ''ref-404'' demo_world))
     = [''ref-404'']"
  by (simp add: verify_payment_def Let_def demo_world_def demo_payment_def gateway_says_def)

section \<open>Cancelling and confirming\<close>

lemma find_filter_keep:
  "find P xs = Some x \<Longrightarrow> Q x \<Longrightarrow> find P (filter Q xs) = Some x"
  by (induction xs) (auto split: if_splits)

lemma get_object_permitted:
  assumes "get_booking pk (bookings w) = Some B" and "b_guest B = u_id usr \<or> u_is_staff usr"
  shows "get_object usr pk w = Inr B"
  using assms find_filter_keep [of "\<lambda>b. b_id b = pk" "bookings w" B "\<lambda>b. b_guest b = u_id usr"]
  by (auto simp: get_object_def booking_get_queryset_def get_booking_def)

text \<open>
  C6. Let \<open>B\<close> be the booking with the requested key, let its status be cancelled, and
  let the requesting user be its guest or staff. Then \<open>cancel\<close> answers with the 400
  response "This booking cannot be cancelled." and neither the booking nor anything else
  in the store changes: the second cancel is rejected.
\<close>

theorem cancel_cancelled_rejected:
  assumes "get_booking pk (bookings w) = Some B"
    and "b_guest B = u_id usr \<or> u_is_staff usr"
    and "b_status B = ''cancelled''"
  shows "cancel has_attr rule now usr pk w =
           (Inl (Bad_request ''This booking cannot be cancelled.''), w)"
  using get_object_permitted [OF assms(1,2)] assms(2,3)
  by (auto simp: cancel_def can_be_cancelled_def)

theorem cancel_cancelled_rejected_witness:
  "cancel True (\<lambda>now b. True) 20 demo_user 9 demo_cancelled_world =
     (Inl (Bad_request ''This booking cannot be cancelled.''), demo_cancelled_world)
   \<and> cancel True (\<lambda>now b. True) 20 demo_admin 9 demo_cancelled_world =
     (Inl (Bad_request ''This booking cannot be cancelled.''), demo_cancelled_world)"
  using cancel_cancelled_rejected [where pk = 9 and w = demo_cancelled_world
      and B = demo_cancelled and usr = demo_user and has_attr = True
      and rule = "\<lambda>now b. True" and now = 20]
    cancel_cancelled_rejected [where pk = 9 and w = demo_cancelled_world
      and B = demo_cancelled and usr = demo_admin and has_attr = True
      and rule = "\<lambda>now b. True" and now = 20]
  by (simp add: demo_cancelled_world_def demo_cancelled_def demo_booking_def demo_user_def
        demo_admin_def get_booking_def)

text \<open>
  For a staff user \<open>confirm\<close> has no precondition on the status: whatever the booking's
  status, it is stored as confirmed, with confirmed_at the current time, and one
  confirmation email to the guest is enqueued.
\<close>

lemma confirm_by_staff:
  assumes "u_is_staff usr"
    and "get_booking pk (bookings w) = Some B"
    and "get_listing (b_listing B) (listings w) = Some l"
    and "get_user (b_guest B) (users w) = Some g"
  shows "confirm now usr pk w =
     (Inr (B\<lparr>b_status := ''confirmed'', b_confirmed_at := Some now\<rparr>),
      w\<lparr>bookings := save_booking (B\<lparr>b_status := ''confirmed'', b_confirmed_at := Some now\<rparr>)
                      (bookings w),
        queue := queue w @
          [Send_booking_confirmation_email
             (confirmed_booking_data (B\<lparr>b_status := ''confirmed'', b_confirmed_at := Some now\<rparr>)
                l now)
             (u_email g)]\<rparr>)"
  using assms get_object_permitted [of pk w B usr]
  by (simp add: confirm_def confirm_save_def Let_def)

text \<open>
  A user who is not staff reaches only the bookings that user made: for any other
  booking, the host of its listing included, \<open>confirm\<close> answers 404 and changes nothing.
\<close>

lemma find_filter_none:
  "\<forall>x \<in> set xs. P x \<longrightarrow> \<not> Q x \<Longrightarrow> find P (filter Q xs) = None"
  by (induction xs) auto

lemma confirm_by_other_not_found:
  assumes "\<not> u_is_staff usr"
    and "\<forall>b \<in> set (bookings w). b_id b = pk \<longrightarrow> b_guest b \<noteq> u_id usr"
  shows "confirm now usr pk w = (Inl (Not_found ''Not found.''), w)"
  using assms find_filter_none [of "bookings w" "\<lambda>b. b_id b = pk" "\<lambda>b. b_guest b = u_id usr"]
  by (simp add: confirm_def get_object_def booking_get_queryset_def)

text \<open>
  C10 fails for the listing's host. In the sample store the host of the listing, who is
  neither staff nor the guest of booking 7, asks to confirm that booking: the view
  answers 404 and changes nothing, because the viewset's queryset holds, for a user who
  is not staff, only the bookings that user made, so \<open>get_object\<close> does not find the
  booking and the test for the host is never reached.
\<close>

theorem confirm_by_host_not_found:
  "get_booking 7 (bookings demo_world) = Some demo_booking \<and>
   get_listing (b_listing demo_booking) (listings demo_world) = Some demo_listing \<and>
   l_host demo_listing = u_id demo_host \<and>
   confirm 20 demo_host 7 demo_world = (Inl (Not_found ''Not found.''), demo_world)"
  by (simp add: confirm_def get_object_def booking_get_queryset_def get_booking_def get_listing_def
        demo_world_def demo_booking_def demo_host_def demo_listing_def)

section \<open>Creating a booking\<close>

lemma unavailable_iff:
  "k \<in> set (unavailable_listings ci co bs) \<longleftrightarrow>
     (\<exists>b \<in> set bs. b_listing b = k \<and> (b_status b = ''confirmed'' \<or> b_status b = ''active'')
        \<and> b_check_in b < co \<and> b_check_out b > ci)"
  by (auto simp: unavailable_listings_def)

text \<open>
  C4. If some booking of the requested listing has status confirmed or active and its
  dates meet the requested ones (it begins before the requested check-out and ends after
  the requested check-in), creating the booking fails with ConflictError, and no row is
  added: the store is as before. The check is the one modelled for the serializer;
  \<open>perform_create\<close> itself inserts the row whatever the store holds.
\<close>

theorem create_conflict:
  assumes "b \<in> set (bookings w)"
    and "b_listing b = l_id (r_listing r)"
    and "b_status b = ''confirmed'' \<or> b_status b = ''active''"
    and "b_check_in b < r_check_out r"
    and "b_check_out b > r_check_in r"
  shows "create create_raises u1 u2 now usr r w = (Inl Conflict_error, w)"
proof -
  have "l_id (r_listing r) \<in> set (unavailable_listings (r_check_in r) (r_check_out r) (bookings w))"
    unfolding unavailable_iff using assms by blast
  then show ?thesis
    by (simp add: create_def validate_booking_def)
qed

theorem create_conflict_witness:
  "create False 1 2 50 demo_user demo_request demo_confirmed_world =
     (Inl Conflict_error, demo_confirmed_world)"
  using create_conflict [where b = "demo_booking\<lparr>b_status := ''confirmed''\<rparr>"
      and w = demo_confirmed_world and r = demo_request and create_raises = False
      and ?u1.0 = 1 and ?u2.0 = 2 and now = 50 and usr = demo_user]
  by (simp add: demo_confirmed_world_def demo_booking_def demo_request_def demo_listing_def)

subsection \<open>The confirmation number\<close>

lemma length_uuid_hex: "length (uuid_hex u) = 32"
  by (simp add: uuid_hex_def)

lemma take8_uuid_str: "take 8 (uuid_str u) = take 8 (uuid_hex u)"
  by (simp add: uuid_str_def Let_def length_uuid_hex)

lemma hex_digit_mem: "hex_digit n \<in> set ''0123456789abcdef''"
proof -
  have "n mod 16 < length ''0123456789abcdef''" by simp
  then show ?thesis unfolding hex_digit_def by (rule nth_mem)
qed

lemma upper_hex_chars: "\<forall>c \<in> set ''0123456789abcdef''. is_upper_alnum (upper_char c)"
  by (simp add: is_upper_alnum_def upper_char_def Let_def)

lemma upper_hex_digit: "is_upper_alnum (upper_char (hex_digit n))"
  using hex_digit_mem upper_hex_chars by blast

lemma confirmation_number_format:
  "length (upper (take 8 (uuid_str u))) = 8 \<and> list_all is_upper_alnum (upper (take 8 (uuid_str u)))"
proof -
  have "set (take 8 (uuid_hex u)) \<subseteq> range hex_digit"
    using set_take_subset [of 8 "uuid_hex u"] by (auto simp: uuid_hex_def)
  then show ?thesis
    by (auto simp: take8_uuid_str upper_def length_uuid_hex list_all_iff upper_hex_digit)
qed

lemma fold_max_bound: "a \<le> fold max ks a \<and> (\<forall>k \<in> set ks. k \<le> fold max ks (a::nat))"
proof (induction ks arbitrary: a)
  case Nil
  show ?case by simp
next
  case (Cons k ks)
  from Cons [of "max k a"] show ?case by auto
qed

lemma fresh_id_fresh: "k \<in> set ks \<Longrightarrow> k < fresh_id ks"
  using fold_max_bound [of 0 ks] by (auto simp: fresh_id_def less_Suc_eq_le)

lemma save_booking_last:
  assumes "\<forall>x \<in> set bs. b_id x \<noteq> b_id b0" and "b_id b = b_id b0"
  shows "save_booking b (bs @ [b0]) = bs @ [b]"
  using assms by (auto simp: save_booking_def list_ex_iff intro: map_idI)

lemma perform_create_result:
  "perform_create create_raises u1 u2 now usr r w =
     (let booking0 = serializer_save r usr now (bookings w);
          booking = (if no_confirmation_number booking0
                     then booking0\<lparr>b_confirmation_number := Some (upper (take 8 (uuid_str u1)))\<rparr>
                     else booking0);
          w3 = w\<lparr>bookings := bookings w @ [booking],
                 queue := queue w @
                   [Send_booking_confirmation_email
                      (created_booking_data booking (r_listing r)) (u_email usr)]\<rparr>
      in if b_total_price booking > 0
         then (booking, snd (initialize_payment create_raises u2 booking w3))
         else (booking, w3))"
proof -
  have fresh: "\<forall>x \<in> set (bookings w). b_id x \<noteq> b_id (serializer_save r usr now (bookings w))"
    using fresh_id_fresh [of _ "map b_id (bookings w)"] by (fastforce simp: serializer_save_def)
  show ?thesis
    using save_booking_last [OF fresh, of "(serializer_save r usr now (bookings w))
        \<lparr>b_confirmation_number := Some (upper (take 8 (uuid_str u1)))\<rparr>"]
    by (simp add: perform_create_def Let_def)
qed

text \<open>
  C3, as amended. When creating a booking succeeds, the booking is stored, as a new row,
  with status pending. If the request carried no confirmation number, the booking has
  one of 8 characters, each a digit or an upper-case letter; otherwise it keeps the one
  given. Exactly one confirmation-email job is enqueued, to the requesting user, and the
  context the task builds from it carries the booking's confirmation number. A payment
  row, pending and linked to the booking, is added if and only if the total price is
  positive and the insert of the payment does not raise; a raising insert is swallowed
  by \<open>initialize_payment\<close> and leaves the booking and the job as they are.
\<close>

theorem create_success:
  assumes "create create_raises u1 u2 now usr r w = (Inr booking, w')"
  shows "b_status booking = ''pending''
     \<and> bookings w' = bookings w @ [booking]
     \<and> (if r_confirmation_number r = None \<or> r_confirmation_number r = Some []
         then \<exists>cn. b_confirmation_number booking = Some cn \<and> length cn = 8
                \<and> list_all is_upper_alnum cn
         else b_confirmation_number booking = r_confirmation_number r)
     \<and> queue w' = queue w @
           [Send_booking_confirmation_email
              (created_booking_data booking (r_listing r)) (u_email usr)]
     \<and> map_of (confirmation_context (created_booking_data booking (r_listing r)) (u_email usr) t)
           ''confirmation_number'' = Some (pystr_opt (b_confirmation_number booking))
     \<and> (if b_total_price booking > 0 \<and> \<not> create_raises
         then \<exists>p. payments w' = payments w @ [p] \<and> p_status p = ''pending''
                \<and> p_booking p = Some (b_id booking) \<and> p_amount p = b_total_price booking
         else payments w' = payments w)"
proof -
  from assms have valid: "validate_booking r w = Inr r"
    by (auto simp: create_def validate_booking_def split: sum.splits if_splits)
  with assms have pc: "perform_create create_raises u1 u2 now usr r w = (booking, w')"
    by (auto simp: create_def split: prod.splits)
  let ?b0 = "serializer_save r usr now (bookings w)"
  have b: "booking = (if no_confirmation_number ?b0
                     then ?b0\<lparr>b_confirmation_number := Some (upper (take 8 (uuid_str u1)))\<rparr>
                     else ?b0)"
    using pc unfolding perform_create_result by (auto simp: Let_def split: if_splits)
  have c1: "b_status booking = ''pending''"
    unfolding b by (simp add: serializer_save_def)
  have c3: "if r_confirmation_number r = None \<or> r_confirmation_number r = Some []
         then \<exists>cn. b_confirmation_number booking = Some cn \<and> length cn = 8
                \<and> list_all is_upper_alnum cn
         else b_confirmation_number booking = r_confirmation_number r"
    unfolding b using confirmation_number_format [of u1]
    by (auto simp: serializer_save_def no_confirmation_number_def split: option.splits)
  have c5: "map_of (confirmation_context (created_booking_data booking (r_listing r)) (u_email usr) t)
           ''confirmation_number'' = Some (pystr_opt (b_confirmation_number booking))"
    by (simp add: confirmation_context_def created_booking_data_def py_get_def)
  have c246: "bookings w' = bookings w @ [booking]
     \<and> queue w' = queue w @
           [Send_booking_confirmation_email
              (created_booking_data booking (r_listing r)) (u_email usr)]
     \<and> (if b_total_price booking > 0 \<and> \<not> create_raises
         then \<exists>p. payments w' = payments w @ [p] \<and> p_status p = ''pending''
                \<and> p_booking p = Some (b_id booking) \<and> p_amount p = b_total_price booking
         else payments w' = payments w)"
    using pc unfolding perform_create_result
    by (auto simp: Let_def initialize_payment_def split: if_splits)
  from c1 c3 c5 c246 show ?thesis by blast
qed

subsection \<open>The sample request\<close>

lemma upt32: "[0..<32] = [0,1,2,3,4,5,6,7,8,9,10,11,12,13,14,15,16,17,18,19,20,21,22,23,24,25,26,27,28,29,30,31::nat]"
  by (simp add: upt_rec)

lemma demo_uuid1: "upper (take 8 (uuid_str 0x1A2B3C4D5E6F47089ABCDEF012345678)) = ''1A2B3C4D''"
proof -
  have "uuid_hex 0x1A2B3C4D5E6F47089ABCDEF012345678 = ''1a2b3c4d5e6f47089abcdef012345678''"
    unfolding uuid_hex_def upt32 by (simp add: hex_digit_def)
  then show ?thesis
    by (simp add: uuid_str_def upper_def upper_char_def char_of_def bit_iff_odd)
qed

lemma demo_uuid2: "uuid_str 0x00000000000040008000000000000001 = ''00000000-0000-4000-8000-000000000001''"
proof -
  have "uuid_hex 0x00000000000040008000000000000001 = ''00000000000040008000000000000001''"
    unfolding uuid_hex_def upt32 by (simp add: hex_digit_def)
  then show ?thesis
    by (simp add: uuid_str_def)
qed

lemma demo_create:
  "create False 0x1A2B3C4D5E6F47089ABCDEF012345678 0x00000000000040008000000000000001 50
      demo_user demo_request demo_world = (Inr demo_created, demo_created_world)"
  by (simp add: create_def validate_booking_def unavailable_listings_def perform_create_def
        serializer_save_def no_confirmation_number_def save_booking_def initialize_payment_def
        fresh_id_def Let_def demo_uuid1 demo_uuid2 demo_created_world_def
        demo_world_def demo_booking_def demo_request_def demo_listing_def demo_user_def
        demo_created_def demo_created_payment_def demo_payment_def)

theorem create_success_witness:
  "create False 0x1A2B3C4D5E6F47089ABCDEF012345678 0x00000000000040008000000000000001 50
      demo_user demo_request demo_world = (Inr demo_created, demo_created_world)
   \<and> b_status demo_created = ''pending''
   \<and> bookings demo_created_world = bookings demo_world @ [demo_created]
   \<and> b_confirmation_number demo_created = Some ''1A2B3C4D''
   \<and> queue demo_created_world = queue demo_world @
        [Send_booking_confirmation_email (created_booking_data demo_created demo_listing)
           ''guest@example.com'']
   \<and> map_of (confirmation_context (created_booking_data demo_created demo_listing)
                ''guest@example.com'' 60) ''confirmation_number'' = Some (PStr ''1A2B3C4D'')
   \<and> (\<exists>p. payments demo_created_world = payments demo_world @ [p] \<and> p_status p = ''pending''
          \<and> p_booking p = Some 8 \<and> p_amount p = 75000)"
  using create_success [OF demo_create, where t = 60] demo_create
  by (simp add: demo_created_def demo_request_def demo_user_def pystr_opt_def)


text \<open>
  C3 as stated fails: when the insert of the payment raises, the sample request, whose
  total price is positive, is created all the same, and no payment row is added.
\<close>

theorem create_success_counterexample:
  "create True 0x1A2B3C4D5E6F47089ABCDEF012345678 0x00000000000040008000000000000001 50
      demo_user demo_request demo_world =
     (Inr demo_created, demo_created_world\<lparr>payments := payments demo_world\<rparr>)
   \<and> b_total_price demo_created > 0"
  by (simp add: create_def validate_booking_def unavailable_listings_def perform_create_def
        serializer_save_def no_confirmation_number_def save_booking_def initialize_payment_def
        fresh_id_def Let_def demo_uuid1 demo_created_world_def
        demo_world_def demo_booking_def demo_request_def demo_listing_def demo_user_def
        demo_created_def)

section \<open>Searching listings\<close>

lemma set_amenities_filter:
  "set (amenities_filter data q) = {l \<in> set q. l \<in> set (amenities_filter data [l])}"
  by (auto simp: amenities_filter_def split: option.splits)

lemma amenities_filter_window:
  "amenities_filter (data\<lparr>s_check_in := v\<rparr>) q = amenities_filter data q"
  by (simp add: amenities_filter_def)

lemma search_with_window:
  assumes "s_check_in data = Some ci" and "s_check_out data = Some co"
  shows "\<exists>res res0.
       search (Some data) w = Inr res
     \<and> search (Some (data\<lparr>s_check_in := None\<rparr>)) w = Inr res0
     \<and> (\<forall>L. L \<in> set res \<longleftrightarrow>
            L \<in> set res0 \<and> l_id L \<notin> set (unavailable_listings ci co (bookings w)))"
proof -
  let ?base = "filter_if_num (s_max_price data) (\<lambda>x l. l_base_price l \<le> x)
                    (filter_if_num (s_min_price data) (\<lambda>x l. l_base_price l \<ge> x)
                      (filter_if_str (s_property_type data) (\<lambda>x l. l_property_type l = x)
                        (filter_if_num (s_guests data) (\<lambda>x l. l_max_guests l \<ge> x)
                          (filter_if_str (s_country data) (\<lambda>x l. icontains (l_country l) x)
                            (filter_if_str (s_city data) (\<lambda>x l. icontains (l_city l) x)
                              (filter (\<lambda>l. l_status l = ''active'') (listings w)))))))"
  have r: "search (Some data) w =
             Inr (amenities_filter data (exclude_ids (unavailable_listings ci co (bookings w)) ?base))"
    using assms by (simp add: search_def availability_check_def)
  have r0: "search (Some (data\<lparr>s_check_in := None\<rparr>)) w = Inr (amenities_filter data ?base)"
    by (simp add: search_def availability_check_def amenities_filter_window)
  have "L \<in> set (amenities_filter data (exclude_ids (unavailable_listings ci co (bookings w)) ?base))
        \<longleftrightarrow> L \<in> set (amenities_filter data ?base)
            \<and> l_id L \<notin> set (unavailable_listings ci co (bookings w))" for L
    by (subst (1 2) set_amenities_filter) (auto simp: exclude_ids_def)
  then show ?thesis
    unfolding r r0 by blast
qed

text \<open>
  The queryset of the list endpoint, before the endpoint's own filter backends and
  pagination: given both dates, the active listings without such a booking.
\<close>

lemma get_queryset_with_window:
  "\<exists>resq. listing_get_queryset (Q_date ci) (Q_date co) w = Inr resq
     \<and> (\<forall>L. L \<in> set resq \<longleftrightarrow>
            L \<in> set (listings w) \<and> l_status L = ''active''
            \<and> l_id L \<notin> set (unavailable_listings ci co (bookings w)))"
  by (auto simp: listing_get_queryset_def exclude_ids_def)

text \<open>
  C5, as amended. For requested dates from \<open>ci\<close> to \<open>co\<close>, a listing is among the
  results of the search exactly when it is among the results of the same search made
  without the dates and no booking of it with status confirmed or active begins before
  \<open>co\<close> and ends after \<open>ci\<close>.
\<close>

theorem availability_filter:
  assumes "s_check_in data = Some ci" and "s_check_out data = Some co"
  shows "\<exists>res res0.
       search (Some data) w = Inr res
     \<and> search (Some (data\<lparr>s_check_in := None\<rparr>)) w = Inr res0
     \<and> (\<forall>L. L \<in> set res \<longleftrightarrow>
              L \<in> set res0 \<and>
              \<not> (\<exists>b \<in> set (bookings w). b_listing b = l_id L
                     \<and> (b_status b = ''confirmed'' \<or> b_status b = ''active'')
                     \<and> b_check_in b < co \<and> b_check_out b > ci))"
  using search_with_window [OF assms, of w]
  unfolding unavailable_iff by blast

theorem availability_filter_witness:
  "s_check_in demo_search = Some 103 \<and> s_check_out demo_search = Some 108 \<and>
   (\<exists>res res0.
       search (Some demo_search) demo_confirmed_world = Inr res
     \<and> search (Some (demo_search\<lparr>s_check_in := None\<rparr>)) demo_confirmed_world = Inr res0
     \<and> demo_listing \<in> set res0 \<and> demo_listing \<notin> set res)"
proof -
  have h1: "s_check_in demo_search = Some 103" and h2: "s_check_out demo_search = Some 108"
    by (simp_all add: demo_search_def)
  have b: "\<exists>b \<in> set (bookings demo_confirmed_world). b_listing b = l_id demo_listing
             \<and> (b_status b = ''confirmed'' \<or> b_status b = ''active'')
             \<and> b_check_in b < 108 \<and> b_check_out b > 103"
    by (simp add: demo_confirmed_world_def demo_booking_def demo_listing_def)
  have r0: "search (Some (demo_search\<lparr>s_check_in := None\<rparr>)) demo_confirmed_world
              = Inr [demo_listing]"
    by (simp add: search_def demo_search_def demo_confirmed_world_def demo_world_def
          demo_listing_def filter_if_num_def filter_if_str_def availability_check_def
          amenities_filter_def)
  from availability_filter [OF h1 h2, of demo_confirmed_world] b r0 h1 h2
  show ?thesis by fastforce
qed

text \<open>
  C5 as stated fails: a listing that is not active is left out of the results though no
  booking at all exists.
\<close>

theorem availability_filter_counterexample:
  "listings demo_inactive_world = [demo_listing\<lparr>l_status := ''inactive''\<rparr>]
   \<and> bookings demo_inactive_world = []
   \<and> search (Some demo_search) demo_inactive_world = Inr []"
  by (simp add: search_def demo_search_def demo_inactive_world_def demo_world_def
        demo_listing_def filter_if_num_def filter_if_str_def availability_check_def
        amenities_filter_def exclude_ids_def unavailable_listings_def)

section \<open>Tasks\<close>

text \<open>
  C7. When every run of the confirmation task fails, the job is retried exactly three
  times, each retry scheduled with a countdown of 300 seconds; the run with retry count
  3 schedules no fourth retry: the task ends in the failed state with the last
  exception, and all that is left behind is one error line in the log per run. No
  message is sent.
\<close>

theorem confirmation_retries:
  "run_confirmation_job (\<lambda>n. Some (errs n)) from_email clock booking_data user_email 0 m =
     ((FAILURE (errs 3), [(1, 300), (2, 300), (3, 300)]),
      m\<lparr>log := log m @
          [''ERROR Failed to send booking confirmation email: '' @ errs 0,
           ''ERROR Failed to send booking confirmation email: '' @ errs 1,
           ''ERROR Failed to send booking confirmation email: '' @ errs 2,
           ''ERROR Failed to send booking confirmation email: '' @ errs 3]\<rparr>)"
  apply (subst run_confirmation_job.simps)
  apply (simp add: send_booking_confirmation_email_def task_retry_def max_retries_def
           numeral_2_eq_2 numeral_3_eq_3)
  apply (subst run_confirmation_job.simps)
  apply (simp add: send_booking_confirmation_email_def task_retry_def max_retries_def
           numeral_2_eq_2 numeral_3_eq_3)
  apply (subst run_confirmation_job.simps)
  apply (simp add: send_booking_confirmation_email_def task_retry_def max_retries_def
           numeral_2_eq_2 numeral_3_eq_3)
  apply (subst run_confirmation_job.simps)
  apply (simp add: send_booking_confirmation_email_def task_retry_def max_retries_def
           numeral_2_eq_2 numeral_3_eq_3)
  done

theorem confirmation_retries_witness:
  "run_confirmation_job (\<lambda>n. Some ''refused'') ''noreply@example.com'' (\<lambda>n. 300000000 * int n)
      (created_booking_data demo_created demo_listing) ''guest@example.com'' 0 demo_mailer =
     ((FAILURE ''refused'', [(1, 300), (2, 300), (3, 300)]),
      \<lparr>outbox = [],
        log = [''ERROR Failed to send booking confirmation email: refused'',
               ''ERROR Failed to send booking confirmation email: refused'',
               ''ERROR Failed to send booking confirmation email: refused'',
               ''ERROR Failed to send booking confirmation email: refused'']\<rparr>)"
  using confirmation_retries [where errs = "\<lambda>n. ''refused''" and from_email = "''noreply@example.com''"
      and clock = "\<lambda>n. 300000000 * int n"
      and booking_data = "created_booking_data demo_created demo_listing"
      and user_email = "''guest@example.com''" and m = demo_mailer]
  by (simp add: demo_mailer_def)

text \<open>
  C8. \<open>cleanup_old_bookings\<close> keeps exactly the bookings that are not both cancelled and
  last updated before the cutoff, thirty days before now: a cancelled booking updated
  before the cutoff is deleted, one updated at or after the cutoff is kept, and a booking
  with any other status is kept. The message returned carries the number of bookings
  deleted. No other table changes.
\<close>

theorem cleanup_old_bookings_deletes:
  "let kept = filter (\<lambda>b. \<not> (b_status b = ''cancelled''
                              \<and> b_updated_at b < now - 30 * 86400000000)) (bookings w)
   in cleanup_old_bookings None now w =
        (''Cleaned up '' @ decimal (length (bookings w) - length kept) @ '' old cancelled bookings'',
         w\<lparr>bookings := kept\<rparr>)"
proof -
  let ?old = "old_cancelled (now - timedelta_days 30)"
  have "length (filter ?old (bookings w)) =
          length (bookings w) - length (filter (\<lambda>b. \<not> ?old b) (bookings w))"
    using sum_length_filter_compl [of ?old "bookings w"] by simp
  then show ?thesis
    by (simp add: cleanup_old_bookings_def Let_def old_cancelled_def timedelta_days_def)
qed

theorem cleanup_old_bookings_deletes_witness:
  "cleanup_old_bookings None 3456000000000 demo_cleanup_world =
     (''Cleaned up 1 old cancelled bookings'',
      demo_cleanup_world\<lparr>bookings := [demo_recent, demo_settled]\<rparr>)"
  using cleanup_old_bookings_deletes [where now = 3456000000000 and w = demo_cleanup_world]
  by (simp add: demo_cleanup_world_def demo_stale_def demo_recent_def demo_settled_def
        demo_cancelled_def demo_booking_def Let_def decimal.simps [of "Suc 0"])


end
